theory Spec2Isabelle
  imports Complex_Main
begin

section \<open>The host language, as far as the library relies on it\<close>

text \<open>
  The library is TypeScript; at run time its payloads are JavaScript values. Two host
  facilities are used by the code: the strict equality operator \<^verbatim>\<open>===\<close> (in
  \<^verbatim>\<open>contains\<close>) and the \<^verbatim>\<open>toString\<close> method of an error payload together with
  \<^verbatim>\<open>throw new Error(...)\<close> (in \<^verbatim>\<open>unwrap\<close>).

  A number is a double. Strict equality cannot tell \<^verbatim>\<open>+0\<close> from \<^verbatim>\<open>-0\<close>, so both are
  \<open>Finite 0\<close>; \<open>Infinity True\<close> is \<^verbatim>\<open>+Infinity\<close> and \<open>Infinity False\<close> is
  \<^verbatim>\<open>-Infinity\<close>. \<open>Finite r\<close> is the double of value \<open>r\<close>; a real that no double
  has is one more value than the host has, and equality treats it as any other. An
  object (a function, an array, an instance of one of the library's own classes) is
  known by its reference only; what the object holds lives in the heap, which
  \<^verbatim>\<open>===\<close> never reads.
\<close>

datatype number = NaN | Infinity bool | Finite real

datatype js_value =
    Undefined
  | Null
  | Boolean bool
  | Number number
  | BigInt int
  | String string
  | Symbol nat
  | Object nat

text \<open>
  \<^verbatim>\<open>x === y\<close>: values of different types are never equal; two numbers are equal when
  neither is \<^verbatim>\<open>NaN\<close> and they have the same value; any other two values of one type
  are equal when they are the same primitive value or the same reference.
\<close>

fun strict_equals :: "js_value \<Rightarrow> js_value \<Rightarrow> bool" where
  "strict_equals (Number a) (Number b) = (a \<noteq> NaN \<and> b \<noteq> NaN \<and> a = b)"
| "strict_equals x y = (x = y)"

text \<open>
  What a \<^verbatim>\<open>throw\<close> of the library raises: \<open>Error m\<close> is \<^verbatim>\<open>new Error(m)\<close>, an error
  whose message is \<open>m\<close>. \<open>TypeError\<close> is what the host raises when a method is looked
  up on \<^verbatim>\<open>null\<close> or \<^verbatim>\<open>undefined\<close>, or is called and is not there.
\<close>

datatype error = Error string | TypeError

text \<open>
  A function passed to a combinator may have effects of its own (a call-counting stub
  increments its counter). It is a function from its argument and the store before the
  call to its result and the store after the call; a combinator threads the store through
  the calls it makes, in the order it makes them. A call that is not made leaves the
  store as it was. The functions are taken to return: one that throws ends the whole
  call, and the library has no handler for it.
\<close>

type_synonym ('a, 'b, 's) callback = "'a \<Rightarrow> 's \<Rightarrow> 'b \<times> 's"

text \<open>
  A function that may run off its end without a \<^verbatim>\<open>return\<close> gives back either the
  value it returned or \<^verbatim>\<open>undefined\<close>.
\<close>

datatype 'r completion = Return 'r | Return_undefined

section \<open>Maybe.ts\<close>

text \<open>
  The abstract class \<^verbatim>\<open>Maybe<T>\<close> has exactly two subclasses, \<^verbatim>\<open>Some<T>\<close> with the
  field \<^verbatim>\<open>value\<close> (read by \<open>value_of\<close>) and \<^verbatim>\<open>None\<close> with no field; each sets the
  field \<^verbatim>\<open>__tag\<close> to its own name. The methods the subclasses implement are one
  function each, with one equation for each subclass; the receiver comes first.
\<close>

datatype 't Maybe = Some_M (value_of: 't) | None_M

fun Maybe_tag :: "'t Maybe \<Rightarrow> string" where
  "Maybe_tag (Some_M v) = ''Some''"
| "Maybe_tag None_M = ''None''"

definition isSome :: "'t Maybe \<Rightarrow> bool" where
  "isSome this = (Maybe_tag this = ''Some'')"

definition isNone :: "'t Maybe \<Rightarrow> bool" where
  "isNone this = (\<not> isSome this)"

text \<open>
  The interface \<^verbatim>\<open>MaybeMatcher<T,U,V>\<close>, with its fields \<^verbatim>\<open>Some\<close> and \<^verbatim>\<open>None\<close>. The
  result type of \<^verbatim>\<open>match\<close> is the union \<^verbatim>\<open>U | V\<close>, here the one type \<open>'r\<close>.
\<close>

record ('t, 'r, 's) MaybeMatcher =
  Some_arm :: "('t, 'r, 's) callback"
  None_arm :: "'s \<Rightarrow> 'r \<times> 's"

definition Maybe_match ::
  "'t Maybe \<Rightarrow> ('t, 'r, 's) MaybeMatcher \<Rightarrow> 's \<Rightarrow> 'r \<times> 's" where
  "Maybe_match this matcher s =
     (if isSome this then Some_arm matcher (Maybe.value_of this) s
      else None_arm matcher s)"

fun Maybe_contains :: "js_value Maybe \<Rightarrow> js_value \<Rightarrow> bool" where
  "Maybe_contains (Some_M v) x = strict_equals v x"
| "Maybe_contains None_M x = False"

fun Maybe_unwrap :: "'t Maybe \<Rightarrow> error + 't" where
  "Maybe_unwrap (Some_M v) = Inr v"
| "Maybe_unwrap None_M = Inl (Error ''Unwrap called on None value'')"

fun Maybe_unwrapOr :: "'t Maybe \<Rightarrow> 't \<Rightarrow> 't" where
  "Maybe_unwrapOr (Some_M v) d = v"
| "Maybe_unwrapOr None_M d = d"

fun Maybe_map :: "'t Maybe \<Rightarrow> ('t, 'u, 's) callback \<Rightarrow> 's \<Rightarrow> 'u Maybe \<times> 's" where
  "Maybe_map (Some_M v) fn s = (case fn v s of (u, s') \<Rightarrow> (Some_M u, s'))"
| "Maybe_map None_M fn s = (None_M, s)"

fun Maybe_mapOr ::
  "'t Maybe \<Rightarrow> ('t, 'u, 's) callback \<Rightarrow> 'u \<Rightarrow> 's \<Rightarrow> 'u Maybe \<times> 's" where
  "Maybe_mapOr (Some_M v) fn d s = (case fn v s of (u, s') \<Rightarrow> (Some_M u, s'))"
| "Maybe_mapOr None_M fn d s = (Some_M d, s)"

fun Maybe_flatMap ::
  "'t Maybe \<Rightarrow> ('t, 'u Maybe, 's) callback \<Rightarrow> 's \<Rightarrow> 'u Maybe \<times> 's" where
  "Maybe_flatMap (Some_M v) fn s = fn v s"
| "Maybe_flatMap None_M fn s = (None_M, s)"

section \<open>Result.ts\<close>

text \<open>
  The abstract class \<^verbatim>\<open>Result<T,E>\<close> has exactly two subclasses, \<^verbatim>\<open>Ok<T,E>\<close> with the
  field \<^verbatim>\<open>value\<close> (read by \<open>value_of\<close>) and \<^verbatim>\<open>Err<T,E>\<close> with the field
  \<^verbatim>\<open>error\<close> (read by \<open>error_of\<close>).
\<close>

datatype ('t, 'e) Result = Ok (value_of: 't) | Err (error_of: 'e)

fun Result_tag :: "('t, 'e) Result \<Rightarrow> string" where
  "Result_tag (Ok v) = ''Ok''"
| "Result_tag (Err e) = ''Err''"

definition isOk :: "('t, 'e) Result \<Rightarrow> bool" where
  "isOk this = (Result_tag this = ''Ok'')"

definition isErr :: "('t, 'e) Result \<Rightarrow> bool" where
  "isErr this = (\<not> isOk this)"

record ('t, 'e, 'r, 's) ResultMatcher =
  Ok_arm :: "('t, 'r, 's) callback"
  Err_arm :: "('e, 'r, 's) callback"

text \<open>
  \<^verbatim>\<open>match\<close> is an \<^verbatim>\<open>if\<close> with an \<^verbatim>\<open>else if\<close> and no final \<^verbatim>\<open>else\<close>: when both
  tests fail the method ends without a \<^verbatim>\<open>return\<close>.
\<close>

definition Result_match ::
  "('t, 'e) Result \<Rightarrow> ('t, 'e, 'r, 's) ResultMatcher \<Rightarrow> 's \<Rightarrow> 'r completion \<times> 's" where
  "Result_match this matcher s =
     (if isOk this then
        (case Ok_arm matcher (Result.value_of this) s of (u, s') \<Rightarrow> (Return u, s'))
      else if isErr this then
        (case Err_arm matcher (error_of this) s of (u, s') \<Rightarrow> (Return u, s'))
      else (Return_undefined, s))"

text \<open>
  The candidate of \<^verbatim>\<open>contains\<close> has the type \<^verbatim>\<open>T | E\<close>: both payloads and the
  candidate are host values.
\<close>

fun Result_contains :: "(js_value, js_value) Result \<Rightarrow> js_value \<Rightarrow> bool" where
  "Result_contains (Ok v) x = strict_equals v x"
| "Result_contains (Err e) x = strict_equals e x"

fun Result_ok :: "('t, 'e) Result \<Rightarrow> 't Maybe" where
  "Result_ok (Ok v) = Some_M v"
| "Result_ok (Err e) = None_M"

fun Result_err :: "('t, 'e) Result \<Rightarrow> 'e Maybe" where
  "Result_err (Ok v) = None_M"
| "Result_err (Err e) = Some_M e"

text \<open>
  \<^verbatim>\<open>Err.unwrap\<close> calls \<^verbatim>\<open>this.error.toString()\<close>, a method of the payload: the
  parameter \<open>toString\<close> gives the string it returns, and \<open>None\<close> for a payload that has
  no such method (\<^verbatim>\<open>null\<close>, \<^verbatim>\<open>undefined\<close>, an object without a prototype), where the
  host raises a type error before the library's own \<^verbatim>\<open>Error\<close> is made.
\<close>

fun Result_unwrap :: "('e \<Rightarrow> string option) \<Rightarrow> ('t, 'e) Result \<Rightarrow> error + 't" where
  "Result_unwrap toString (Ok v) = Inr v"
| "Result_unwrap toString (Err e) =
     (case toString e of Some m \<Rightarrow> Inl (Error m) | None \<Rightarrow> Inl TypeError)"

fun Result_unwrapOr :: "('t, 'e) Result \<Rightarrow> 't \<Rightarrow> 't" where
  "Result_unwrapOr (Ok v) d = v"
| "Result_unwrapOr (Err e) d = d"

text \<open>
  The host's \<^verbatim>\<open>e.toString()\<close> on its values. \<^verbatim>\<open>undefined\<close> and \<^verbatim>\<open>null\<close> have no
  properties, and the lookup of the method raises the type error. A string renders to
  itself and a boolean to \<^verbatim>\<open>true\<close> or \<^verbatim>\<open>false\<close>. How the other values render (the
  digits of a number, the description of a symbol, the method an object defines or
  inherits, if any) is the parameter \<open>render\<close>.
\<close>

fun toString_method :: "(js_value \<Rightarrow> string option) \<Rightarrow> js_value \<Rightarrow> string option" where
  "toString_method render Undefined = None"
| "toString_method render Null = None"
| "toString_method render (String s) = Some s"
| "toString_method render (Boolean b) = Some (if b then ''true'' else ''false'')"
| "toString_method render v = render v"

fun Result_map ::
  "('t, 'e) Result \<Rightarrow> ('t, 'u, 's) callback \<Rightarrow> 's \<Rightarrow> ('u, 'e) Result \<times> 's" where
  "Result_map (Ok v) fn s = (case fn v s of (u, s') \<Rightarrow> (Ok u, s'))"
| "Result_map (Err e) fn s = (Err e, s)"

fun Result_mapOr ::
  "('t, 'e) Result \<Rightarrow> ('t, 'u, 's) callback \<Rightarrow> 'u \<Rightarrow> 's \<Rightarrow> ('u, 'e) Result \<times> 's" where
  "Result_mapOr (Ok v) fn d s = (case fn v s of (u, s') \<Rightarrow> (Ok u, s'))"
| "Result_mapOr (Err e) fn d s = (Ok d, s)"

fun Result_mapErr ::
  "('t, 'e) Result \<Rightarrow> ('e, 'f, 's) callback \<Rightarrow> 's \<Rightarrow> ('t, 'f) Result \<times> 's" where
  "Result_mapErr (Ok v) fn s = (Ok v, s)"
| "Result_mapErr (Err e) fn s = (case fn e s of (u, s') \<Rightarrow> (Err u, s'))"

fun Result_flatMap ::
  "('t, 'e) Result \<Rightarrow> ('t, ('u, 'e) Result, 's) callback \<Rightarrow> 's \<Rightarrow> ('u, 'e) Result \<times> 's" where
  "Result_flatMap (Ok v) fn s = fn v s"
| "Result_flatMap (Err e) fn s = (Err e, s)"

section \<open>The modules and their exports\<close>








section \<open>Vocabulary of the statements\<close>

text \<open>
  The call chain \<^verbatim>\<open>r.map(f1).map(f2)...map(fn)\<close> of the tests, for any number of
  functions: each call receives the result and the store of the one before.
\<close>

fun Result_map_chain ::
  "('t, 'e) Result \<Rightarrow> ('t, 't, 's) callback list \<Rightarrow> 's \<Rightarrow> ('t, 'e) Result \<times> 's" where
  "Result_map_chain r [] s = (r, s)"
| "Result_map_chain r (fn # fns) s =
     (case Result_map r fn s of (r', s') \<Rightarrow> Result_map_chain r' fns s')"

text \<open>
  A heap gives, for each object reference, the properties the object holds, by name.
  Two objects are structurally equal when they hold the same properties with the same
  values.
\<close>

type_synonym heap = "nat \<Rightarrow> (string \<times> js_value) list"

definition structurally_equal :: "heap \<Rightarrow> nat \<Rightarrow> nat \<Rightarrow> bool" where
  "structurally_equal h a b = (h a = h b)"

text \<open>
  A call-counting stub: it computes \<open>f\<close> and adds one to the counter, which is the store.
\<close>

definition counting :: "('a \<Rightarrow> 'b) \<Rightarrow> ('a, 'b, nat) callback" where
  "counting f v n = (f v, Suc n)"

section \<open>Facts about the host and the variants\<close>

lemma strict_equals_sym: "strict_equals x y = strict_equals y x"
  by (induction x y rule: strict_equals.induct) auto

lemma strict_equals_refl: "strict_equals v v = (v \<noteq> Number NaN)"
  by (cases v) auto

text \<open>Away from \<^verbatim>\<open>NaN\<close>, strict equality is equality of the modelled values.\<close>

lemma strict_equals_eq: "v \<noteq> Number NaN \<Longrightarrow> strict_equals v x = (v = x)"
  by (cases v; cases x) auto

text \<open>
  The type guards are sound: the tag tells the subclass, so the field read that follows a
  guard in \<^verbatim>\<open>match\<close> reads a field the receiver has.
\<close>

lemma isSome_iff: "isSome x = (\<exists>v. x = Some_M v)"
  by (cases x) (simp_all add: isSome_def)

lemma isNone_iff: "isNone x = (x = None_M)"
  by (cases x) (simp_all add: isNone_def isSome_def)

lemma isOk_iff: "isOk r = (\<exists>v. r = Ok v)"
  by (cases r) (simp_all add: isOk_def)

lemma isErr_iff: "isErr r = (\<exists>e. r = Err e)"
  by (cases r) (simp_all add: isErr_def isOk_def)

lemma isSome_value_of: "isSome x \<Longrightarrow> x = Some_M (Maybe.value_of x)"
  by (auto simp: isSome_iff)

lemma isOk_value_of: "isOk r \<Longrightarrow> r = Ok (Result.value_of r)"
  by (auto simp: isOk_iff)

lemma isErr_error_of: "isErr r \<Longrightarrow> r = Err (error_of r)"
  by (auto simp: isErr_iff)

lemma Maybe_match_Some: "Maybe_match (Some_M v) m s = Some_arm m v s"
  by (simp add: Maybe_match_def isSome_def)

lemma Maybe_match_None: "Maybe_match None_M m s = None_arm m s"
  by (simp add: Maybe_match_def isSome_def)

lemma Result_match_Ok:
  "Result_match (Ok v) k s = (Return (fst (Ok_arm k v s)), snd (Ok_arm k v s))"
  by (simp add: Result_match_def isOk_def split: prod.split)

lemma Result_match_Err:
  "Result_match (Err e) k s = (Return (fst (Err_arm k e s)), snd (Err_arm k e s))"
  by (simp add: Result_match_def isOk_def isErr_def split: prod.split)

lemma Result_map_chain_Err: "Result_map_chain (Err e) fns s = (Err e, s)"
proof (induction fns)
  case Nil
  show ?case by simp
next
  case (Cons fn fns)
  have "Result_map (Err e) fn s = (Err e, s)" by simp
  with Cons.IH show ?case by simp
qed

lemma isSome_mapOr: "isSome (fst (Maybe_mapOr x f d s))"
  by (cases x) (simp_all add: isSome_def split: prod.split)

lemma isOk_mapOr: "isOk (fst (Result_mapOr r g d s))"
  by (cases r) (simp_all add: isOk_def split: prod.split)

text \<open>
  What holds of \<^verbatim>\<open>unwrap\<close> for every payload: \<^verbatim>\<open>Some(v).unwrap()\<close> and
  \<^verbatim>\<open>Ok(v).unwrap()\<close> return \<open>v\<close>; \<^verbatim>\<open>None().unwrap()\<close> fails with the error of the
  message "Unwrap called on None value"; \<^verbatim>\<open>Err(e).unwrap()\<close> fails, and when \<open>e\<close>
  renders to the text \<open>m\<close> the failure is the error whose message is \<open>m\<close>.
\<close>

lemma unwrap_of_rendered_payload:
  "Maybe_unwrap (Some_M v) = Inr v
   \<and> Result_unwrap toString (Ok w) = Inr w
   \<and> Maybe_unwrap None_M = Inl (Error ''Unwrap called on None value'')
   \<and> isl (Result_unwrap toString (Err e))
   \<and> (toString e = Some m \<longrightarrow> Result_unwrap toString (Err e) = Inl (Error m))"
proof -
  have fails: "isl (Result_unwrap toString (Err e))"
    by (cases "toString e") simp_all
  have carries: "toString e = Some m \<longrightarrow> Result_unwrap toString (Err e) = Inl (Error m)"
    by simp
  from fails carries show ?thesis by simp
qed

text \<open>
  The test of \<^verbatim>\<open>Err.unwrap\<close>: a string payload renders to itself, and the error
  thrown has the payload as its message.
\<close>

lemma unwrap_of_string_payload:
  "Some ''Unwrap called on error result'' = Some ''Unwrap called on error result''
   \<and> Result_unwrap Some (Err ''Unwrap called on error result'' :: (nat, string) Result)
       = Inl (Error ''Unwrap called on error result'')"
  using unwrap_of_rendered_payload
    [where toString = Some and e = "''Unwrap called on error result''"
       and m = "''Unwrap called on error result''"]
  by simp

section \<open>The scenarios of the tests, computed\<close>

lemma scenario_map_square:
  "Maybe_map (Some_M (2::int)) (counting (\<lambda>x. x * x)) 0 = (Some_M 4, 1)"
  by (simp add: counting_def)

lemma scenario_unwrapOr_default: "Maybe_unwrapOr None_M (117::int) = 117"
  by simp

lemma scenario_flatMap_length:
  "Result_flatMap (Ok ''string'') (counting (\<lambda>v. Ok (length v))) 0 = (Ok 6, 1)"
  by (simp add: counting_def)

lemma scenario_map_on_None_counts_no_call:
  "Maybe_map None_M (counting f) n = (None_M, n)"
  by simp

lemma scenario_mapOr:
  "Result_mapOr (Ok (4::int)) (counting (\<lambda>x. x * 2)) 10 0 = (Ok 8, 1)
   \<and> Result_mapOr (Err ''e'') (counting (\<lambda>x. x)) ''foo'' 0 = (Ok ''foo'', 0)"
  by (simp add: counting_def)

lemma scenario_match:
  "Maybe_match (Some_M (4::int))
     \<lparr>Some_arm = counting (\<lambda>n. n * n), None_arm = (\<lambda>s. (10, Suc s))\<rparr> 0 = (16, 1)
   \<and> Result_match (Err ''Cow'')
     \<lparr>Ok_arm = counting (\<lambda>n::nat. n * n), Err_arm = counting length\<rparr> 0 = (Return 3, 1)"
  by (simp add: Maybe_match_Some Result_match_Err counting_def)

section \<open>The claims\<close>

text \<open>
  C1. The claim has \<^verbatim>\<open>Err(e).unwrap()\<close> fail, for every payload \<open>e\<close>, with a
  failure that carries the textual representation of \<open>e\<close>. The code does so for a
  string payload: \<^verbatim>\<open>new Err("Error").unwrap()\<close> throws the error of the message
  "Error". It does not for the payloads \<^verbatim>\<open>null\<close> and \<^verbatim>\<open>undefined\<close>:
  \<^verbatim>\<open>this.error.toString()\<close> is evaluated first and raises the host's type error, so
  the library's own error is never made, and what is thrown is no error of any message
  taken from the payload.
\<close>

theorem Err_unwrap_null_payload:
  "Result_unwrap (toString_method render) (Err Null) = Inl TypeError
   \<and> Result_unwrap (toString_method render) (Err Undefined) = Inl TypeError
   \<and> (\<forall>m. Result_unwrap (toString_method render) (Err Null) \<noteq> Inl (Error m))
   \<and> (\<forall>m. Result_unwrap (toString_method render) (Err Undefined) \<noteq> Inl (Error m))
   \<and> Result_unwrap (toString_method render) (Err (String ''Error'')) = Inl (Error ''Error'')"
proof -
  have null: "Result_unwrap (toString_method render) (Err Null) = Inl TypeError"
    by simp
  have undefined: "Result_unwrap (toString_method render) (Err Undefined) = Inl TypeError"
    by simp
  have string:
    "Result_unwrap (toString_method render) (Err (String ''Error'')) = Inl (Error ''Error'')"
    by simp
  from null undefined string show ?thesis
    by simp
qed

text \<open>
  C2. For every default \<open>d\<close> and every function, in both families: \<^verbatim>\<open>mapOr\<close> on the
  empty variant gives the non-empty variant holding \<open>d\<close>, so unwrapping it returns
  \<open>d\<close>; the function is not called (the store is the one before the call, whatever
  the function); and whatever the receiver, the result of \<^verbatim>\<open>mapOr\<close> passes
  \<^verbatim>\<open>isSome\<close>, respectively \<^verbatim>\<open>isOk\<close>.
\<close>

theorem mapOr_wraps_default:
  "Maybe_mapOr None_M f d s = (Some_M d, s)
   \<and> Maybe_unwrap (fst (Maybe_mapOr None_M f d s)) = Inr d
   \<and> Result_mapOr (Err e) g d' s' = (Ok d', s')
   \<and> Result_unwrap toString (fst (Result_mapOr (Err e) g d' s')) = Inr d'
   \<and> isSome (fst (Maybe_mapOr x f d s))
   \<and> isOk (fst (Result_mapOr r g d' s'))"
  by (simp add: isSome_mapOr isOk_mapOr)

text \<open>
  C3. \<^verbatim>\<open>Some(v).map(f)\<close> calls \<open>f\<close> once, on \<open>v\<close>, and is the Present that holds
  the result, so unwrapping it returns that result. \<^verbatim>\<open>None().map(f)\<close> is Absent and
  \<open>f\<close> is not called. \<^verbatim>\<open>Err(e).map(f)\<close> is the Failure with the same payload \<open>e\<close>
  and \<open>f\<close> is not called; so are two \<^verbatim>\<open>map\<close> calls in a row and a chain of any
  length.
\<close>

theorem map_applies_or_passes:
  "Maybe_map (Some_M v) f s = (Some_M (fst (f v s)), snd (f v s))
   \<and> Maybe_unwrap (fst (Maybe_map (Some_M v) f s)) = Inr (fst (f v s))
   \<and> Maybe_map None_M f s = (None_M, s)
   \<and> isNone (fst (Maybe_map None_M f s))
   \<and> Result_map (Err e) g s' = (Err e, s')
   \<and> (case Result_map (Err e) g s' of (r1, s1) \<Rightarrow> Result_map r1 g' s1) = (Err e, s')
   \<and> Result_map_chain (Err e) gs s' = (Err e, s')"
proof -
  have present: "Maybe_map (Some_M v) f s = (Some_M (fst (f v s)), snd (f v s))"
    by (simp split: prod.split)
  have absent: "isNone (fst (Maybe_map None_M f s))"
    by (simp add: isNone_iff)
  from present absent show ?thesis
    by (simp add: Result_map_chain_Err)
qed

text \<open>
  C4. \<^verbatim>\<open>Some(v).flatMap(g)\<close> is what \<open>g\<close> returns on \<open>v\<close>, with no further
  wrapping, and has the effects of that one call. \<^verbatim>\<open>None().flatMap(g)\<close> is Absent and
  \<open>g\<close> is not called. The same holds of \<^verbatim>\<open>Ok\<close> and \<^verbatim>\<open>Err\<close>, where the Failure
  keeps its payload.
\<close>

theorem flatMap_left_identity:
  "Maybe_flatMap (Some_M v) g s = g v s
   \<and> Maybe_flatMap None_M g s = (None_M, s)
   \<and> isNone (fst (Maybe_flatMap None_M g s))
   \<and> Result_flatMap (Ok w) h s' = h w s'
   \<and> Result_flatMap (Err e) h s' = (Err e, s')
   \<and> isErr (fst (Result_flatMap (Err e) h s'))"
  by (simp add: isNone_iff isErr_iff)

text \<open>
  C5. For every \<open>v\<close> and \<open>e\<close>: \<^verbatim>\<open>Ok(v).ok()\<close> is \<^verbatim>\<open>Some(v)\<close>, \<^verbatim>\<open>Ok(v).err()\<close> is
  \<^verbatim>\<open>None\<close>, \<^verbatim>\<open>Err(e).ok()\<close> is \<^verbatim>\<open>None\<close> and \<^verbatim>\<open>Err(e).err()\<close> is \<^verbatim>\<open>Some(e)\<close>.
\<close>

theorem ok_err_conversions:
  "Result_ok (Ok v) = Some_M v
   \<and> Result_err (Ok v) = None_M
   \<and> Result_ok (Err e) = None_M
   \<and> Result_err (Err e) = Some_M e"
  by simp

text \<open>
  C6. \<^verbatim>\<open>Err(e).mapErr(f)\<close> calls \<open>f\<close> once, on \<open>e\<close>, and is the Failure that holds
  the result, so \<^verbatim>\<open>Err(e).mapErr(f).err().unwrap()\<close> returns that result.
  \<^verbatim>\<open>Ok(v).mapErr(f)\<close> is the Success that holds \<open>v\<close>, so unwrapping it returns
  \<open>v\<close>, and \<open>f\<close> is not called.
\<close>

theorem mapErr_maps_error_channel:
  "Result_mapErr (Err e) f s = (Err (fst (f e s)), snd (f e s))
   \<and> Maybe_unwrap (Result_err (fst (Result_mapErr (Err e) f s))) = Inr (fst (f e s))
   \<and> Result_mapErr (Ok v) f s = (Ok v, s)
   \<and> Result_unwrap toString (fst (Result_mapErr (Ok v) f s)) = Inr v"
  by (simp split: prod.split)

text \<open>
  C7. \<^verbatim>\<open>Result.contains\<close> tests the channel of the receiver's variant:
  \<^verbatim>\<open>Ok(v).contains(x)\<close> is true exactly when \<open>x\<close> equals \<open>v\<close>, and
  \<^verbatim>\<open>Err(e).contains(x)\<close> exactly when \<open>x\<close> equals \<open>e\<close>, by the host's strict
  equality; \<^verbatim>\<open>Err(42).contains(42)\<close> is true and \<^verbatim>\<open>Err(42).contains(7)\<close> is false.
\<close>

theorem Result_contains_either_channel:
  "Result_contains (Ok v) x = strict_equals x v
   \<and> Result_contains (Err e) x = strict_equals x e
   \<and> Result_contains (Err (Number (Finite 42))) (Number (Finite 42))
   \<and> \<not> Result_contains (Err (Number (Finite 42))) (Number (Finite 7))"
  by (simp add: strict_equals_sym [of x])


text \<open>
  C9. For every Maybe, \<^verbatim>\<open>isNone()\<close> is the negation of \<^verbatim>\<open>isSome()\<close>, and for every
  Result, \<^verbatim>\<open>isErr()\<close> is the negation of \<^verbatim>\<open>isOk()\<close>, so exactly one of the two is
  true. \<^verbatim>\<open>match\<close> runs exactly one of its two handlers, the one of the receiver's
  variant, on the receiver's payload; and \<^verbatim>\<open>Result.match\<close> never runs off its end:
  it never returns \<^verbatim>\<open>undefined\<close> for want of a branch.
\<close>

theorem discriminators_complementary:
  "isNone x = (\<not> isSome x)
   \<and> isErr r = (\<not> isOk r)
   \<and> isSome x \<noteq> isNone x
   \<and> isOk r \<noteq> isErr r
   \<and> Maybe_match (Some_M v) m s = Some_arm m v s
   \<and> Maybe_match None_M m s = None_arm m s
   \<and> Result_match (Ok w) k s' = (Return (fst (Ok_arm k w s')), snd (Ok_arm k w s'))
   \<and> Result_match (Err e) k s' = (Return (fst (Err_arm k e s')), snd (Err_arm k e s'))
   \<and> fst (Result_match r k s') \<noteq> Return_undefined"
proof -
  have tests: "isNone x = (\<not> isSome x)" "isErr r = (\<not> isOk r)"
    by (simp_all add: isNone_def isErr_def)
  have reached: "fst (Result_match r k s') \<noteq> Return_undefined"
  proof (cases r)
    case (Ok a)
    then show ?thesis by (simp add: Result_match_Ok)
  next
    case (Err b)
    then show ?thesis by (simp add: Result_match_Err)
  qed
  from tests reached show ?thesis
    by (simp add: Maybe_match_Some Maybe_match_None Result_match_Ok Result_match_Err)
qed

text \<open>
  C10. \<^verbatim>\<open>contains\<close> is the host's strict equality: \<^verbatim>\<open>Some(v).contains(x)\<close> is true
  exactly when \<^verbatim>\<open>x === v\<close>. On two object references it is true exactly when they
  are the same reference, whatever the two objects hold: of two objects that both hold
  \<^verbatim>\<open>{x: 1}\<close>, at the references 1 and 2, neither contains the other.
  \<^verbatim>\<open>Some(v).contains(v)\<close> holds exactly when \<open>v\<close> is strictly equal to itself, which
  every value but \<^verbatim>\<open>NaN\<close> is. \<^verbatim>\<open>None().contains(x)\<close> is false for every \<open>x\<close>.
  \<^verbatim>\<open>Ok.contains\<close> compares references in the same way.
\<close>

theorem Maybe_contains_strict:
  "Maybe_contains (Some_M v) x = strict_equals x v
   \<and> Maybe_contains (Some_M (Object a)) (Object b) = (a = b)
   \<and> structurally_equal (\<lambda>_. [(''x'', Number (Finite 1))]) 1 2
   \<and> \<not> Maybe_contains (Some_M (Object 1)) (Object 2)
   \<and> Maybe_contains (Some_M v) v = strict_equals v v
   \<and> Maybe_contains (Some_M v) v = (v \<noteq> Number NaN)
   \<and> Maybe_contains None_M x = False
   \<and> Result_contains (Ok (Object a)) (Object b) = (a = b)"
proof -
  have candidate: "Maybe_contains (Some_M v) x = strict_equals x v"
    by (simp add: strict_equals_sym [of x])
  have itself: "Maybe_contains (Some_M v) v = (v \<noteq> Number NaN)"
    by (simp add: strict_equals_refl)
  from candidate itself show ?thesis
    by (simp add: structurally_equal_def)
qed

end
